theory Spec2Isabelle
  imports Complex_Main
begin

section \<open>Planticity: the plant simulation engine (models/plant.py)\<close>

text \<open>
  A shallow embedding of the class \<open>Plant\<close> of \<open>models/plant.py\<close>. Methods that mutate
  \<open>self\<close> become functions from the plant to the updated plant. A method that may raise
  returns a sum: \<open>Inl (e, p)\<close> is the exception \<open>e\<close> together with the plant as it stands
  when the exception leaves the method (the object is mutated in place, so this is what a
  caller holding the object sees); \<open>Inr\<close> is normal completion.

  Python integers are \<open>int\<close>. The float property \<open>size\<close> and the float arithmetic of
  \<open>_grow\<close> and \<open>_blossom\<close> are written over \<open>real\<close>, in exact arithmetic; the
  properties below are about the integer fields, the status and the exceptions.
\<close>

subsection \<open>Constants\<close>

datatype status = SEED | PLANTED | PLANT | MATURE | YIELD | DEAD

abbreviation ACTIONS_WAIT :: string where "ACTIONS_WAIT \<equiv> ''wait''"
abbreviation ACTIONS_PLANT_SEED :: string where "ACTIONS_PLANT_SEED \<equiv> ''plant seed''"
abbreviation ACTIONS_WATER :: string where "ACTIONS_WATER \<equiv> ''water''"
abbreviation ACTIONS_FUNGICIDE :: string where "ACTIONS_FUNGICIDE \<equiv> ''fungicide''"
abbreviation ACTIONS_FUMIGATE :: string where "ACTIONS_FUMIGATE \<equiv> ''fumigate''"
abbreviation ACTIONS_FERTILIZE :: string where "ACTIONS_FERTILIZE \<equiv> ''fertilize''"

text \<open>
  The dictionary \<open>STATUS_ACTIONS\<close>: it has the five keys \<open>SEED\<close>, \<open>PLANTED\<close>, \<open>PLANT\<close>,
  \<open>MATURE\<close> and \<open>YIELD\<close>, and no key \<open>DEAD\<close>.
\<close>

fun STATUS_ACTIONS :: "status \<Rightarrow> string list option" where
  "STATUS_ACTIONS SEED =
     Some [ACTIONS_PLANT_SEED, ACTIONS_FUNGICIDE, ACTIONS_FUMIGATE, ACTIONS_FERTILIZE]"
| "STATUS_ACTIONS PLANTED =
     Some [ACTIONS_WAIT, ACTIONS_WATER, ACTIONS_FERTILIZE]"
| "STATUS_ACTIONS PLANT =
     Some [ACTIONS_WAIT, ACTIONS_WATER, ACTIONS_FUNGICIDE, ACTIONS_FUMIGATE, ACTIONS_FERTILIZE]"
| "STATUS_ACTIONS MATURE =
     Some [ACTIONS_WAIT, ACTIONS_WATER, ACTIONS_FUNGICIDE, ACTIONS_FUMIGATE, ACTIONS_FERTILIZE]"
| "STATUS_ACTIONS YIELD = Some []"
| "STATUS_ACTIONS DEAD = None"

datatype py_error = KeyError | NotImplementedError | ValueError | ZeroDivisionError

subsection \<open>The plant, the species data, the texts and the random draws\<close>

record plant =
  name :: string
  common_name :: string
  age :: int
  size_plant :: real
  status :: status
  stress :: int
  moisture :: int
  flowers :: int
  look :: string
  fertilizer :: int
  fungicide :: int
  fumigation :: int
  fungi :: bool
  plague :: bool
  dead :: bool

text \<open>
  \<open>json/plant_species.json\<close> is read at import time and is not part of the sources, so the
  entry \<open>PLANT_SPECIES[self.name]\<close> (the variable \<open>data\<close> of the methods) is a parameter.
  \<open>data['evolution'][k]\<close> is the field \<open>evolution_k\<close>; \<open>data[self.status][k]\<close> is the
  field \<open>k\<close> applied to the status.
\<close>

record species =
  species_name :: string
  species_common_name :: string
  evolution_germination :: int
  evolution_maturity :: int
  evolution_yield :: int
  growth_rate :: real
  adult_size :: real
  ideal_moisture :: int
  ideal_fertilizer :: "status \<Rightarrow> int"
  fungi_chance :: "status \<Rightarrow> int"
  plague_chance :: "status \<Rightarrow> int"
  flowers_day :: "status \<Rightarrow> real"

text \<open>
  \<open>json/plant_texts.json\<close> is not part of the sources either: \<open>TEXTS\<close> is a parameter. A
  template that the code fills with \<open>%\<close> is a function of the values it is filled with.
\<close>

record texts =
  texts_germinated :: string
  texts_status :: "status \<Rightarrow> string"
  texts_plant_size :: "real \<Rightarrow> string"
  texts_conditions_fungi :: string
  texts_conditions_plague :: string
  texts_fertilized_flowers :: "int \<Rightarrow> string \<Rightarrow> string"
  texts_moisture :: "string \<Rightarrow> string"
  texts_effect_days :: "string \<Rightarrow> int \<Rightarrow> string \<Rightarrow> string"
  texts_fertilization_lack :: string
  texts_fertilization_toxic :: string
  texts_fertilization_ok :: string

text \<open>
  The calls of \<open>random.randint\<close>, one field for each call site; a call of \<open>interact\<close>
  reaches each call site at most once. \<open>draws_ok\<close> says that every draw lies in the range
  its call site asks for.
\<close>

record draws =
  retained_water :: int
  lost_water :: int
  random_percent :: int
  fungi_dice :: int
  plague_dice :: int

definition draws_ok :: "draws \<Rightarrow> bool" where
  "draws_ok d =
     (30 \<le> retained_water d \<and> retained_water d \<le> 70 \<and>
      10 \<le> lost_water d \<and> lost_water d \<le> 20 \<and>
      90 \<le> random_percent d \<and> random_percent d \<le> 110 \<and>
      0 \<le> fungi_dice d \<and> fungi_dice d \<le> 100 \<and>
      0 \<le> plague_dice d \<and> plague_dice d \<le> 100)"

type_synonym 'a raises = "(py_error \<times> plant) + 'a"

subsection \<open>Formatting helpers\<close>

text \<open>\<open>'%s' % n\<close> for an integer \<open>n\<close>, and \<open>sep.join(xs)\<close>.\<close>

definition digit_char :: "nat \<Rightarrow> char" where
  "digit_char n = ''0123456789'' ! n"

fun str_nat :: "nat \<Rightarrow> string" where
  "str_nat n = (if n < 10 then [digit_char n] else str_nat (n div 10) @ [digit_char (n mod 10)])"

declare str_nat.simps [simp del]

definition str_int :: "int \<Rightarrow> string" where
  "str_int i = (if i < 0 then CHR ''-'' # str_nat (nat (- i)) else str_nat (nat i))"

fun join :: "string \<Rightarrow> string list \<Rightarrow> string" where
  "join sep [] = []"
| "join sep [x] = x"
| "join sep (x # y # ys) = x @ sep @ join sep (y # ys)"

text \<open>\<open>round(x, 1)\<close> (halves away from zero) and \<open>int(x)\<close> (truncation) on a float.\<close>

definition round1 :: "real \<Rightarrow> real" where
  "round1 x =
     (if 0 \<le> x then of_int \<lfloor>x * 10 + 1 / 2\<rfloor> / 10 else - (of_int \<lfloor>- x * 10 + 1 / 2\<rfloor> / 10))"

definition int_of_float :: "real \<Rightarrow> int" where
  "int_of_float x = (if 0 \<le> x then \<lfloor>x\<rfloor> else \<lceil>x\<rceil>)"

subsection \<open>Helpers of the class\<close>

definition get_fertilizer_diff :: "species \<Rightarrow> plant \<Rightarrow> int" where
  "get_fertilizer_diff data p = fertilizer p - ideal_fertilizer data (status p)"

definition get_moisture_diff :: "species \<Rightarrow> plant \<Rightarrow> int" where
  "get_moisture_diff data p = moisture p - ideal_moisture data"

definition add_stress :: "int \<Rightarrow> plant \<Rightarrow> plant" where
  "add_stress amount p = p\<lparr>stress := min (stress p + amount) 100\<rparr>"

definition get_moisture_text :: "texts \<Rightarrow> plant \<Rightarrow> string" where
  "get_moisture_text tx p =
     texts_moisture tx
       (if moisture p = 0 then ''1''
        else if moisture p < 25 then ''2''
        else if moisture p < 50 then ''3''
        else if moisture p < 75 then ''4''
        else ''5'')"

definition get_effect_text :: "texts \<Rightarrow> string \<Rightarrow> int \<Rightarrow> string" where
  "get_effect_text tx text num = texts_effect_days tx text num (if num > 1 then ''s'' else '''')"

definition update_look :: "species \<Rightarrow> texts \<Rightarrow> plant \<Rightarrow> plant" where
  "update_look data tx p =
     (if status p = YIELD then
        p\<lparr>look := ''Game completed! Final yield: '' @ str_int (flowers p)\<rparr>
      else if status p = DEAD then
        p\<lparr>look := ''The plant is dead... Be more careful the next time!''\<rparr>
      else
        let looks =
          [''Day '' @ str_int (age p)]
          @ (if age p = evolution_germination data then [texts_germinated tx] else [])
          @ [texts_status tx (status p)]
          @ (if status p = PLANT \<or> status p = MATURE then
               [texts_plant_size tx (size_plant p)]
               @ (if fungi p then [texts_conditions_fungi tx] else [])
               @ (if plague p then [texts_conditions_plague tx] else [])
             else [])
          @ (if status p = MATURE then
               [texts_fertilized_flowers tx (flowers p) (if flowers p > 1 then ''s'' else '''')]
             else [])
          @ [get_moisture_text tx p]
          @ (if fungicide p > 0 then [get_effect_text tx ''fungicide'' (fungicide p)] else [])
          @ (if fumigation p > 0 then [get_effect_text tx ''fumigation'' (fumigation p)] else [])
          @ (if status p = PLANT \<or> status p = MATURE then
               (let fertilizer_diff = get_fertilizer_diff data p in
                if fertilizer_diff < - 20 then [texts_fertilization_lack tx]
                else if fertilizer_diff > 20 then [texts_fertilization_toxic tx]
                else if fertilizer_diff > - 10 \<and> fertilizer_diff < 10
                  then [texts_fertilization_ok tx]
                else [])
             else [])
          @ [''Moisture: '' @ str_int (moisture p) @ ''%'']
          @ [''Fertilizer: '' @ str_int (fertilizer p) @ ''%'']
          @ (if status p \<noteq> SEED \<and> status p \<noteq> PLANTED
               then [''Stress: '' @ str_int (stress p) @ ''%''] else [])
        in p\<lparr>look := join ''. '' looks\<rparr>)"

subsection \<open>Methods that progress the status\<close>

definition plant_seed :: "plant \<Rightarrow> plant raises" where
  "plant_seed p =
     (if status p \<noteq> SEED then Inl (ValueError, p) else Inr (p\<lparr>status := PLANTED\<rparr>))"

definition germinate :: "species \<Rightarrow> plant \<Rightarrow> plant raises" where
  "germinate data p =
     (if \<not> status p = PLANTED then Inl (ValueError, p)
      else Inr (p\<lparr>status := PLANT,
                   stress := stress p + \<bar>moisture p - ideal_moisture data\<bar>\<rparr>))"

definition mature :: "plant \<Rightarrow> plant raises" where
  "mature p =
     (if \<not> status p = PLANT then Inl (ValueError, p) else Inr (p\<lparr>status := MATURE\<rparr>))"

definition yield :: "plant \<Rightarrow> plant raises" where
  "yield p =
     (if \<not> status p = MATURE then Inl (ValueError, p)
      else Inr (p\<lparr>status := YIELD, dead := True\<rparr>))"

definition kill :: "plant \<Rightarrow> plant" where
  "kill p = p\<lparr>status := DEAD, dead := True\<rparr>"

subsection \<open>Methods that perform actions\<close>

definition water :: "draws \<Rightarrow> plant \<Rightarrow> plant" where
  "water d p = p\<lparr>moisture := min (moisture p + retained_water d) 100\<rparr>"

definition fungicide_action :: "plant \<Rightarrow> plant" where
  "fungicide_action p = add_stress 10 (p\<lparr>fungi := False, fungicide := 5\<rparr>)"

definition fumigate :: "plant \<Rightarrow> plant" where
  "fumigate p = add_stress 10 (p\<lparr>plague := False, fumigation := 5\<rparr>)"

definition fertilize :: "plant \<Rightarrow> plant" where
  "fertilize p = p\<lparr>fertilizer := min 100 (fertilizer p + 10)\<rparr>"

subsection \<open>The end of the day\<close>

definition evolve :: "species \<Rightarrow> plant \<Rightarrow> plant raises" where
  "evolve data p =
     (if age p = evolution_germination data then germinate data p
      else if age p = evolution_maturity data then mature p
      else if age p = evolution_yield data then yield p
      else Inr p)"

definition consume_water :: "draws \<Rightarrow> plant \<Rightarrow> plant" where
  "consume_water d p = p\<lparr>moisture := max (moisture p - lost_water d) 0\<rparr>"

definition grow :: "species \<Rightarrow> plant \<Rightarrow> plant" where
  "grow data p =
     (let day_growth = 0.01 * (100 - of_int (stress p)) * growth_rate data;
          fertilizer_diff = \<bar>get_fertilizer_diff data p\<bar>;
          day_growth =
            (if fertilizer_diff < 10
             then 0.033 * (10 - of_int fertilizer_diff) * growth_rate data
             else day_growth)
      in p\<lparr>size_plant := round1 (size_plant p + day_growth)\<rparr>)"

definition blossom :: "species \<Rightarrow> draws \<Rightarrow> plant \<Rightarrow> plant raises" where
  "blossom data d p =
     (let fertilizer_diff = \<bar>get_fertilizer_diff data p\<bar>;
          fertilizer_diff =
            (if fertilizer_diff < 20 then of_int fertilizer_diff * 0.05 else 1.2);
          fertile_factor = 1.2 - fertilizer_diff
      in if adult_size data = 0 then Inl (ZeroDivisionError, p)
         else
           let growth_factor = size_plant p / adult_size data;
               stress_factor = 1 - 0.01 * of_int (stress p);
               random_factor = 0.01 * of_int (random_percent d);
               flower_factor = fertile_factor * growth_factor * stress_factor * random_factor;
               daily_flowers = flowers_day data (status p);
               fertile_flowers = flower_factor * daily_flowers
           in Inr (p\<lparr>flowers := flowers p + int_of_float fertile_flowers\<rparr>))"

definition roll_fungi :: "species \<Rightarrow> draws \<Rightarrow> plant \<Rightarrow> plant" where
  "roll_fungi data d p =
     (if \<not> fungi p \<and> fungicide p = 0 then
        (if fungi_chance data (status p) > fungi_dice d then p\<lparr>fungi := True\<rparr> else p)
      else p)"

definition roll_plague :: "species \<Rightarrow> draws \<Rightarrow> plant \<Rightarrow> plant" where
  "roll_plague data d p =
     (if \<not> plague p \<and> fumigation p = 0 then
        (if plague_chance data (status p) > plague_dice d then p\<lparr>plague := True\<rparr> else p)
      else p)"

definition calc_plant_stress :: "species \<Rightarrow> plant \<Rightarrow> plant" where
  "calc_plant_stress data p =
     (let moisture_diff = \<bar>get_moisture_diff data p\<bar>;
          s = stress p + (moisture_diff - 30);
          s = (if fungi p \<or> plague p then s + 25 else s);
          fertilizer_diff = \<bar>get_fertilizer_diff data p\<bar>;
          s = (if fertilizer_diff > 20 then s + (fertilizer_diff - 20) else s);
          s = min s 100;
          s = max s 0
      in p\<lparr>stress := s\<rparr>)"

text \<open>The first block of \<open>_end_day\<close>: the age and the three daily decrements.\<close>

definition end_day_counters :: "plant \<Rightarrow> plant" where
  "end_day_counters p =
     (if status p \<noteq> SEED then
        p\<lparr>age := age p + 1,
          fungicide := fungicide p - (if fungicide p > 0 then 1 else 0),
          fumigation := fumigation p - (if fumigation p > 0 then 1 else 0),
          fertilizer := fertilizer p - (if fertilizer p > 0 then 1 else 0)\<rparr>
      else p)"

text \<open>
  The block of \<open>_end_day\<close> with the infection rolls and the recalculation of the stress,
  and the death check that follows it.
\<close>

definition end_day_stress :: "species \<Rightarrow> draws \<Rightarrow> plant \<Rightarrow> plant" where
  "end_day_stress data d p =
     (if status p = PLANT \<or> status p = MATURE
      then calc_plant_stress data (roll_plague data d (roll_fungi data d p))
      else p)"

definition end_day_health :: "species \<Rightarrow> draws \<Rightarrow> plant \<Rightarrow> plant" where
  "end_day_health data d p =
     (let p = end_day_stress data d p
      in if stress p > 99 then kill p else p)"

definition end_day :: "species \<Rightarrow> texts \<Rightarrow> draws \<Rightarrow> plant \<Rightarrow> plant raises" where
  "end_day data tx d p =
     (case evolve data (end_day_counters p) of
        Inl e \<Rightarrow> Inl e
      | Inr p \<Rightarrow>
          (let p = consume_water d p;
               p = (if status p = PLANT then grow data p else p)
           in (case (if status p = MATURE then blossom data d p else Inr p) of
                 Inl e \<Rightarrow> Inl e
               | Inr p \<Rightarrow> Inr (update_look data tx (end_day_health data d p)))))"

subsection \<open>Interaction with the plant\<close>

text \<open>
  The chain of \<open>if\<close>/\<open>elif\<close> of \<open>interact\<close> that applies the action. The chain has no
  final \<open>else\<close>: an action that is none of the six falls through it (no allowed list holds
  such an action).
\<close>

definition perform :: "draws \<Rightarrow> plant \<Rightarrow> string \<Rightarrow> plant raises" where
  "perform d p action =
     (if action = ACTIONS_WAIT then Inr p
      else if action = ACTIONS_PLANT_SEED then plant_seed p
      else if action = ACTIONS_WATER then Inr (water d p)
      else if action = ACTIONS_FUNGICIDE then Inr (fungicide_action p)
      else if action = ACTIONS_FUMIGATE then Inr (fumigate p)
      else if action = ACTIONS_FERTILIZE then Inr (fertilize p)
      else Inr p)"

text \<open>
  \<open>interact\<close> has no \<open>return\<close> statement: a call that completes returns Python's \<open>None\<close>,
  written \<open>None :: string option\<close>, next to the updated plant.
\<close>

definition interact ::
  "species \<Rightarrow> texts \<Rightarrow> draws \<Rightarrow> plant \<Rightarrow> string \<Rightarrow> (string option \<times> plant) raises" where
  "interact data tx d p action =
     (case STATUS_ACTIONS (status p) of
        None \<Rightarrow> Inl (KeyError, p)
      | Some possible_actions \<Rightarrow>
          if possible_actions = [] then Inl (NotImplementedError, p)
          else if action \<notin> set possible_actions then Inl (NotImplementedError, p)
          else (case perform d p action of
                  Inl e \<Rightarrow> Inl e
                | Inr p \<Rightarrow>
                    (case end_day data tx d p of
                       Inl e \<Rightarrow> Inl e
                     | Inr p \<Rightarrow> Inr (None, p))))"

definition new_plant :: "species \<Rightarrow> texts \<Rightarrow> plant" where
  "new_plant variety tx =
     update_look variety tx
       \<lparr>name = species_name variety, common_name = species_common_name variety,
        age = 0, size_plant = 0, status = SEED, stress = 0, moisture = 0, flowers = 0,
        look = ''It's a '' @ species_common_name variety @ '' seed'',
        fertilizer = 0, fungicide = 0, fumigation = 0,
        fungi = False, plague = False, dead = False\<rparr>"

definition yielded :: "plant \<Rightarrow> bool" where
  "yielded p = (status p = YIELD)"

subsection \<open>Sequences of calls\<close>

text \<open>
  \<open>Game.take_action\<close> calls \<open>interact\<close> once for every move of the player. \<open>interacts\<close> runs
  a list of moves, each with the draws of its day, and stops at the first call that raises.
\<close>

fun interacts :: "species \<Rightarrow> texts \<Rightarrow> plant \<Rightarrow> (string \<times> draws) list \<Rightarrow> plant raises" where
  "interacts data tx p [] = Inr p"
| "interacts data tx p ((action, d) # rest) =
     (case interact data tx d p action of
        Inl e \<Rightarrow> Inl e
      | Inr (r, p') \<Rightarrow> interacts data tx p' rest)"

text \<open>The plant as the caller finds it after a run, whether the run raised or not.\<close>

definition plant_of :: "plant raises \<Rightarrow> plant" where
  "plant_of res = (case res of Inl (e, p) \<Rightarrow> p | Inr p \<Rightarrow> p)"

text \<open>
  The position of a status in the sequence \<open>SEED < PLANTED < PLANT < MATURE < YIELD\<close>;
  \<open>DEAD\<close> has no position in it. \<open>not_backward s s'\<close>: both have a position and that of
  \<open>s'\<close> is not before that of \<open>s\<close>.
\<close>

fun stage_index :: "status \<Rightarrow> nat option" where
  "stage_index SEED = Some 0"
| "stage_index PLANTED = Some 1"
| "stage_index PLANT = Some 2"
| "stage_index MATURE = Some 3"
| "stage_index YIELD = Some 4"
| "stage_index DEAD = None"

definition not_backward :: "status \<Rightarrow> status \<Rightarrow> bool" where
  "not_backward s s' =
     (case (stage_index s, stage_index s') of
        (Some i, Some j) \<Rightarrow> i \<le> j
      | _ \<Rightarrow> False)"

subsection \<open>Sample data\<close>

text \<open>
  A species record, a table of texts and the draws of a day, for the closed examples: the
  two JSON files of the game are not part of the sources.
\<close>

definition sample_species :: species where
  "sample_species =
     \<lparr>species_name = ''Pisum Sativum'', species_common_name = ''Pea'',
      evolution_germination = 5, evolution_maturity = 10, evolution_yield = 20,
      growth_rate = 2, adult_size = 40, ideal_moisture = 60,
      ideal_fertilizer = (\<lambda>s. 50), fungi_chance = (\<lambda>s. 5), plague_chance = (\<lambda>s. 5),
      flowers_day = (\<lambda>s. 3)\<rparr>"

definition sample_texts :: texts where
  "sample_texts =
     \<lparr>texts_germinated = ''Germinated'',
      texts_status = (\<lambda>s. ''Status''),
      texts_plant_size = (\<lambda>x. ''Size''),
      texts_conditions_fungi = ''Fungi'', texts_conditions_plague = ''Plague'',
      texts_fertilized_flowers = (\<lambda>n s. str_int n @ '' flower'' @ s),
      texts_moisture = (\<lambda>k. ''Soil '' @ k),
      texts_effect_days = (\<lambda>t n s. t @ '' '' @ str_int n @ '' day'' @ s),
      texts_fertilization_lack = ''Lack'', texts_fertilization_toxic = ''Toxic'',
      texts_fertilization_ok = ''Ok''\<rparr>"

definition sample_draws :: draws where
  "sample_draws =
     \<lparr>retained_water = 50, lost_water = 15, random_percent = 100,
      fungi_dice = 50, plague_dice = 50\<rparr>"

text \<open>The percentages of the plant lie in \<open>[0, 100]\<close>; the two counters lie in \<open>[0, 5]\<close>.\<close>

definition percentages_ok :: "plant \<Rightarrow> bool" where
  "percentages_ok p =
     (0 \<le> moisture p \<and> moisture p \<le> 100 \<and>
      0 \<le> fertilizer p \<and> fertilizer p \<le> 100 \<and>
      0 \<le> stress p \<and> stress p \<le> 100)"

definition counters_ok :: "plant \<Rightarrow> bool" where
  "counters_ok p =
     (0 \<le> fungicide p \<and> fungicide p \<le> 5 \<and> 0 \<le> fumigation p \<and> fumigation p \<le> 5)"

text \<open>The sample plant after the moves fertilize, plant seed and water.\<close>

definition sample_day2 :: plant where
  "sample_day2 =
     \<lparr>name = ''Pisum Sativum'', common_name = ''Pea'', age = 2, size_plant = 0,
      status = PLANTED, stress = 0, moisture = 35, flowers = 0,
      look = ''Day 2. Status. Soil 3. Moisture: 35%. Fertilizer: 8%'',
      fertilizer = 8, fungicide = 0, fumigation = 0, fungi = False, plague = False,
      dead = False\<rparr>"

text \<open>
  A species that germinates on the first day out of the seed, in dry and unfertilized soil,
  and a species whose germination day is day 0.
\<close>

definition quick_species :: species where
  "quick_species =
     sample_species\<lparr>evolution_germination := 1, ideal_moisture := 0,
       ideal_fertilizer := (\<lambda>s. 0)\<rparr>"

definition early_species :: species where
  "early_species = sample_species\<lparr>evolution_germination := 0\<rparr>"

text \<open>The new sample plant after nine applications of fungicide, and after the tenth.\<close>

definition sample_seed90 :: plant where
  "sample_seed90 =
     \<lparr>name = ''Pisum Sativum'', common_name = ''Pea'', age = 0, size_plant = 0,
      status = SEED, stress = 90, moisture = 0, flowers = 0,
      look = ''Day 0. Status. Soil 1. fungicide 5 days. Moisture: 0%. Fertilizer: 0%'',
      fertilizer = 0, fungicide = 5, fumigation = 0, fungi = False, plague = False,
      dead = False\<rparr>"

definition sample_dead :: plant where
  "sample_dead =
     sample_seed90\<lparr>status := DEAD, stress := 100, dead := True,
       look := ''The plant is dead... Be more careful the next time!''\<rparr>"

text \<open>
  The new sample plant after seven applications of fungicide, five of fertilizer, the
  planting of the seed and three waterings.
\<close>

definition sample_day4 :: plant where
  "sample_day4 =
     \<lparr>name = ''Pisum Sativum'', common_name = ''Pea'', age = 4, size_plant = 0,
      status = PLANTED, stress = 70, moisture = 85, flowers = 0,
      look = ''Day 4. Status. Soil 5. fungicide 1 day. Moisture: 85%. Fertilizer: 46%'',
      fertilizer = 46, fungicide = 1, fumigation = 0, fungi = False, plague = False,
      dead = False\<rparr>"

text \<open>A mature sample plant on the eve of its yield, under heavy stress, and its next day.\<close>

definition sample_ripe :: plant where
  "sample_ripe = sample_day2\<lparr>age := 19, status := MATURE, stress := 95\<rparr>"

definition sample_ripe_day20 :: plant where
  "sample_ripe_day20 =
     sample_ripe\<lparr>age := 20, status := DEAD, stress := 100, moisture := 20, fertilizer := 7,
       fungicide := 4, dead := True,
       look := ''The plant is dead... Be more careful the next time!''\<rparr>"

text \<open>A sample plant whose status is ahead of its age: it grows before its germination day.\<close>

definition sample_misplaced :: plant where
  "sample_misplaced = sample_day2\<lparr>age := 4, status := PLANT\<rparr>"

section \<open>Properties\<close>

subsection \<open>What a call is made of\<close>

lemma interact_Inr:
  assumes "interact data tx d p action = Inr (r, p')"
  obtains possible_actions q where
    "STATUS_ACTIONS (status p) = Some possible_actions"
    "action \<in> set possible_actions"
    "perform d p action = Inr q"
    "end_day data tx d q = Inr p'"
    "r = None"
  using assms
  by (auto simp: interact_def split: option.splits if_splits sum.splits)

lemma update_look_fields [simp]:
  "age (update_look data tx p) = age p"
  "status (update_look data tx p) = status p"
  "stress (update_look data tx p) = stress p"
  "moisture (update_look data tx p) = moisture p"
  "fertilizer (update_look data tx p) = fertilizer p"
  "fungicide (update_look data tx p) = fungicide p"
  "fumigation (update_look data tx p) = fumigation p"
  "dead (update_look data tx p) = dead p"
  "flowers (update_look data tx p) = flowers p"
  by (simp_all add: update_look_def Let_def)

lemma grow_fields [simp]:
  "age (grow data p) = age p"
  "status (grow data p) = status p"
  "stress (grow data p) = stress p"
  "moisture (grow data p) = moisture p"
  "fertilizer (grow data p) = fertilizer p"
  "fungicide (grow data p) = fungicide p"
  "fumigation (grow data p) = fumigation p"
  "dead (grow data p) = dead p"
  by (simp_all add: grow_def Let_def)

lemma blossom_fields:
  assumes "blossom data d p = Inr q"
  shows "age q = age p" "status q = status p" "stress q = stress p" "moisture q = moisture p"
    "fertilizer q = fertilizer p" "fungicide q = fungicide p" "fumigation q = fumigation p"
    "dead q = dead p"
  using assms by (auto simp: blossom_def Let_def split: if_splits)

lemma consume_water_fields [simp]:
  "age (consume_water d p) = age p"
  "status (consume_water d p) = status p"
  "stress (consume_water d p) = stress p"
  "moisture (consume_water d p) = max (moisture p - lost_water d) 0"
  "fertilizer (consume_water d p) = fertilizer p"
  "fungicide (consume_water d p) = fungicide p"
  "fumigation (consume_water d p) = fumigation p"
  "dead (consume_water d p) = dead p"
  by (simp_all add: consume_water_def)

lemma roll_fungi_fields [simp]:
  "age (roll_fungi data d p) = age p"
  "status (roll_fungi data d p) = status p"
  "stress (roll_fungi data d p) = stress p"
  "moisture (roll_fungi data d p) = moisture p"
  "fertilizer (roll_fungi data d p) = fertilizer p"
  "fungicide (roll_fungi data d p) = fungicide p"
  "fumigation (roll_fungi data d p) = fumigation p"
  "dead (roll_fungi data d p) = dead p"
  by (simp_all add: roll_fungi_def)

lemma roll_plague_fields [simp]:
  "age (roll_plague data d p) = age p"
  "status (roll_plague data d p) = status p"
  "stress (roll_plague data d p) = stress p"
  "moisture (roll_plague data d p) = moisture p"
  "fertilizer (roll_plague data d p) = fertilizer p"
  "fungicide (roll_plague data d p) = fungicide p"
  "fumigation (roll_plague data d p) = fumigation p"
  "dead (roll_plague data d p) = dead p"
  by (simp_all add: roll_plague_def)

lemma calc_plant_stress_fields [simp]:
  "age (calc_plant_stress data p) = age p"
  "status (calc_plant_stress data p) = status p"
  "moisture (calc_plant_stress data p) = moisture p"
  "fertilizer (calc_plant_stress data p) = fertilizer p"
  "fungicide (calc_plant_stress data p) = fungicide p"
  "fumigation (calc_plant_stress data p) = fumigation p"
  "dead (calc_plant_stress data p) = dead p"
  by (simp_all add: calc_plant_stress_def Let_def)

lemma kill_fields [simp]:
  "age (kill p) = age p"
  "status (kill p) = DEAD"
  "stress (kill p) = stress p"
  "moisture (kill p) = moisture p"
  "fertilizer (kill p) = fertilizer p"
  "fungicide (kill p) = fungicide p"
  "fumigation (kill p) = fumigation p"
  "dead (kill p) = True"
  by (simp_all add: kill_def)

lemma end_day_health_fields [simp]:
  "age (end_day_health data d p) = age p"
  "moisture (end_day_health data d p) = moisture p"
  "fertilizer (end_day_health data d p) = fertilizer p"
  "fungicide (end_day_health data d p) = fungicide p"
  "fumigation (end_day_health data d p) = fumigation p"
  by (simp_all add: end_day_health_def end_day_stress_def Let_def)

lemma end_day_health_stress:
  "stress (end_day_health data d p) = stress (end_day_stress data d p)"
  "stress (end_day_stress data d p) =
     (if status p = PLANT \<or> status p = MATURE
      then stress (calc_plant_stress data (roll_plague data d (roll_fungi data d p)))
      else stress p)"
  by (simp_all add: end_day_health_def end_day_stress_def Let_def)

lemma calc_plant_stress_range:
  "0 \<le> stress (calc_plant_stress data p)" "stress (calc_plant_stress data p) \<le> 100"
  by (simp_all add: calc_plant_stress_def Let_def)

lemma end_day_health_status:
  "status (end_day_health data d p) =
     (if 99 < stress (end_day_health data d p) then DEAD else status p)"
  by (simp add: end_day_health_def end_day_stress_def Let_def)

lemma end_day_health_dead:
  "dead (end_day_health data d p) = (99 < stress (end_day_health data d p) \<or> dead p)"
proof -
  define q where
    "q = (if status p = PLANT \<or> status p = MATURE
          then calc_plant_stress data (roll_plague data d (roll_fungi data d p)) else p)"
  have q: "dead q = dead p"
    by (simp add: q_def)
  have "end_day_health data d p = (if 99 < stress q then kill q else q)"
    by (simp add: end_day_health_def end_day_stress_def Let_def q_def)
  then show ?thesis
    using q by simp
qed

text \<open>What a completed \<open>_end_day\<close> is made of.\<close>

lemma end_day_Inr:
  assumes "end_day data tx d p = Inr p'"
  obtains q g where
    "evolve data (end_day_counters p) = Inr q"
    "age g = age q" "status g = status q" "stress g = stress q"
    "moisture g = max (moisture q - lost_water d) 0"
    "fertilizer g = fertilizer q" "fungicide g = fungicide q" "fumigation g = fumigation q"
    "dead g = dead q"
    "p' = update_look data tx (end_day_health data d g)"
proof -
  from assms obtain q where q: "evolve data (end_day_counters p) = Inr q"
    by (cases "evolve data (end_day_counters p)") (simp_all add: end_day_def)
  define w where
    "w = (if status (consume_water d q) = PLANT then grow data (consume_water d q)
          else consume_water d q)"
  define b where "b = (if status w = MATURE then blossom data d w else Inr w)"
  have w: "age w = age q" "status w = status q" "stress w = stress q"
    "moisture w = max (moisture q - lost_water d) 0"
    "fertilizer w = fertilizer q" "fungicide w = fungicide q" "fumigation w = fumigation q"
    "dead w = dead q"
    by (simp_all add: w_def)
  have "end_day data tx d p =
      (case b of Inl e \<Rightarrow> Inl e
       | Inr g \<Rightarrow> Inr (update_look data tx (end_day_health data d g)))"
    using q by (simp add: end_day_def Let_def w_def b_def)
  with assms obtain g where g: "b = Inr g"
    and p': "p' = update_look data tx (end_day_health data d g)"
    by (cases b) simp_all
  have gw: "age g = age w \<and> status g = status w \<and> stress g = stress w \<and>
    moisture g = moisture w \<and> fertilizer g = fertilizer w \<and> fungicide g = fungicide w \<and>
    fumigation g = fumigation w \<and> dead g = dead w"
  proof (cases "status w = MATURE")
    case True
    then have bl: "blossom data d w = Inr g"
      using g by (simp add: b_def)
    show ?thesis
      by (simp add: blossom_fields [OF bl])
  next
    case False
    then have "g = w"
      using g by (simp add: b_def)
    then show ?thesis
      by simp
  qed
  have "age g = age q" "status g = status q" "stress g = stress q"
    "moisture g = max (moisture q - lost_water d) 0"
    "fertilizer g = fertilizer q" "fungicide g = fungicide q" "fumigation g = fumigation q"
    "dead g = dead q"
    using gw w by simp_all
  with q p' show thesis
    using that by blast
qed

lemma end_day_counters_fields [simp]:
  "status (end_day_counters p) = status p"
  "stress (end_day_counters p) = stress p"
  "moisture (end_day_counters p) = moisture p"
  "dead (end_day_counters p) = dead p"
  "age (end_day_counters p) = (if status p \<noteq> SEED then age p + 1 else age p)"
  "fertilizer (end_day_counters p) =
     (if status p \<noteq> SEED \<and> 0 < fertilizer p then fertilizer p - 1 else fertilizer p)"
  "fungicide (end_day_counters p) =
     (if status p \<noteq> SEED \<and> 0 < fungicide p then fungicide p - 1 else fungicide p)"
  "fumigation (end_day_counters p) =
     (if status p \<noteq> SEED \<and> 0 < fumigation p then fumigation p - 1 else fumigation p)"
  by (simp_all add: end_day_counters_def)

text \<open>What \<open>_evolve\<close> leaves alone, and the four things it can do to status and stress.\<close>

lemma evolve_fields:
  assumes "evolve data p = Inr q"
  shows "age q = age p" "moisture q = moisture p" "fertilizer q = fertilizer p"
    "fungicide q = fungicide p" "fumigation q = fumigation p"
  using assms
  by (auto simp: evolve_def germinate_def mature_def yield_def split: if_splits)

lemma evolve_status:
  assumes "evolve data p = Inr q"
  shows "(status q = status p \<and> stress q = stress p \<and> dead q = dead p) \<or>
    (status p = PLANTED \<and> status q = PLANT \<and> dead q = dead p \<and>
       stress q = stress p + \<bar>moisture p - ideal_moisture data\<bar>) \<or>
    (status p = PLANT \<and> status q = MATURE \<and> stress q = stress p \<and> dead q = dead p) \<or>
    (status p = MATURE \<and> status q = YIELD \<and> stress q = stress p \<and> dead q)"
  using assms
  by (auto simp: evolve_def germinate_def mature_def yield_def split: if_splits)

lemma evolve_Inl:
  assumes "evolve data p = Inl (e, q)"
  shows "e = ValueError \<and> q = p"
  using assms
  by (auto simp: evolve_def germinate_def mature_def yield_def split: if_splits)

lemma blossom_Inl:
  assumes "blossom data d p = Inl (e, q)"
  shows "e = ZeroDivisionError \<and> q = p"
  using assms
  by (auto simp: blossom_def Let_def split: if_splits)

text \<open>What applying an action does, field by field.\<close>

lemma perform_fields:
  assumes "perform d p action = Inr q"
  shows "age q = age p"
    and "status q = (if action = ACTIONS_PLANT_SEED then PLANTED else status p)"
    and "action = ACTIONS_PLANT_SEED \<longrightarrow> status p = SEED"
    and "dead q = dead p"
    and "moisture q =
      (if action = ACTIONS_WATER then min (moisture p + retained_water d) 100 else moisture p)"
    and "fertilizer q =
      (if action = ACTIONS_FERTILIZE then min 100 (fertilizer p + 10) else fertilizer p)"
    and "stress q =
      (if action = ACTIONS_FUNGICIDE \<or> action = ACTIONS_FUMIGATE
       then min (stress p + 10) 100 else stress p)"
    and "fungicide q = (if action = ACTIONS_FUNGICIDE then 5 else fungicide p)"
    and "fumigation q = (if action = ACTIONS_FUMIGATE then 5 else fumigation p)"
  using assms
  by (auto simp: perform_def plant_seed_def water_def fungicide_action_def fumigate_def
      fertilize_def add_stress_def split: if_splits)

lemma perform_Inl:
  assumes "perform d p action = Inl (e, q)"
  shows "e = ValueError \<and> q = p \<and> action = ACTIONS_PLANT_SEED \<and> status p \<noteq> SEED"
  using assms
  by (auto simp: perform_def plant_seed_def split: if_splits)

lemma allowed_plant_seed:
  assumes "STATUS_ACTIONS s = Some possible_actions"
    and "ACTIONS_PLANT_SEED \<in> set possible_actions"
  shows "s = SEED"
  using assms by (cases s) auto

lemma new_plant_fields [simp]:
  "age (new_plant data tx) = 0"
  "status (new_plant data tx) = SEED"
  "stress (new_plant data tx) = 0"
  "moisture (new_plant data tx) = 0"
  "fertilizer (new_plant data tx) = 0"
  "fungicide (new_plant data tx) = 0"
  "fumigation (new_plant data tx) = 0"
  "dead (new_plant data tx) = False"
  "flowers (new_plant data tx) = 0"
  by (simp_all add: new_plant_def)

text \<open>How a call of \<open>interact\<close> can raise, and what the plant is then.\<close>

lemma end_day_Inl:
  assumes "end_day data tx d p = Inl (e, p'')"
  shows "(e = ValueError \<and> p'' = end_day_counters p) \<or>
    (e = ZeroDivisionError \<and>
      (\<exists>q. evolve data (end_day_counters p) = Inr q \<and> status q = MATURE \<and>
        p'' = consume_water d q))"
proof (cases "evolve data (end_day_counters p)")
  case (Inl a)
  with assms have "a = (e, p'')"
    by (simp add: end_day_def)
  with Inl show ?thesis
    using evolve_Inl by blast
next
  case (Inr q)
  define w where
    "w = (if status (consume_water d q) = PLANT then grow data (consume_water d q)
          else consume_water d q)"
  define b where "b = (if status w = MATURE then blossom data d w else Inr w)"
  have "end_day data tx d p =
      (case b of Inl e \<Rightarrow> Inl e
       | Inr g \<Rightarrow> Inr (update_look data tx (end_day_health data d g)))"
    using Inr by (simp add: end_day_def Let_def w_def b_def)
  with assms have b: "b = Inl (e, p'')"
    by (cases b) simp_all
  then have m: "status w = MATURE" and bl: "blossom data d w = Inl (e, p'')"
    by (auto simp: b_def split: if_splits)
  from m have "status q = MATURE" and "w = consume_water d q"
    by (auto simp: w_def split: if_splits)
  with bl Inr show ?thesis
    using blossom_Inl by blast
qed

lemma interact_Inl:
  assumes "interact data tx d p action = Inl (e, p'')"
  shows "(e = KeyError \<and> status p = DEAD \<and> p'' = p) \<or>
    (e = NotImplementedError \<and> p'' = p) \<or>
    (\<exists>q. perform d p action = Inr q \<and> end_day data tx d q = Inl (e, p''))"
proof (cases "STATUS_ACTIONS (status p)")
  case None
  then have "status p = DEAD"
    by (cases "status p") simp_all
  with assms None show ?thesis
    by (simp add: interact_def)
next
  case (Some possible_actions)
  show ?thesis
  proof (cases "possible_actions = [] \<or> action \<notin> set possible_actions")
    case True
    with Some have "interact data tx d p action = Inl (NotImplementedError, p)"
      by (auto simp: interact_def)
    with assms show ?thesis
      by simp
  next
    case False
    show ?thesis
    proof (cases "perform d p action")
      case (Inl a)
      obtain e' q' where a: "a = (e', q')"
        by (cases a)
      from Inl have "action = ACTIONS_PLANT_SEED \<and> status p \<noteq> SEED"
        using perform_Inl [of d p action e' q'] by (simp add: a)
      with False Some show ?thesis
        using allowed_plant_seed [of "status p" possible_actions] by simp
    next
      case (Inr q)
      with assms Some False have "end_day data tx d q = Inl (e, p'')"
        by (auto simp: interact_def split: sum.splits)
      with Inr show ?thesis
        by blast
    qed
  qed
qed

lemma not_allowed:
  assumes "STATUS_ACTIONS (status p) = Some possible_actions"
    and "action \<notin> set possible_actions"
  shows "interact data tx d p action = Inl (NotImplementedError, p)"
  using assms by (simp add: interact_def)

lemma interact_dead:
  assumes "status p = DEAD"
  shows "interact data tx d p action = Inl (KeyError, p)"
  using assms by (simp add: interact_def)

lemma interact_yield:
  assumes "status p = YIELD"
  shows "interact data tx d p action = Inl (NotImplementedError, p)"
  using assms by (simp add: interact_def)

text \<open>The definitions a closed example unfolds.\<close>

lemmas run_defs =
  interact_def perform_def plant_seed_def water_def fungicide_action_def fumigate_def
  fertilize_def add_stress_def end_day_def end_day_counters_def evolve_def germinate_def
  mature_def yield_def kill_def consume_water_def grow_def blossom_def roll_fungi_def
  roll_plague_def calc_plant_stress_def end_day_stress_def end_day_health_def
  get_fertilizer_diff_def
  get_moisture_diff_def update_look_def get_moisture_text_def get_effect_text_def
  new_plant_def str_int_def str_nat.simps digit_char_def
  sample_species_def sample_texts_def sample_draws_def

lemmas sample_defs =
  sample_day2_def sample_seed90_def sample_dead_def sample_day4_def sample_ripe_def
  sample_ripe_day20_def sample_misplaced_def quick_species_def early_species_def

lemma replicate_numeral:
  "replicate (numeral k) x = x # replicate (pred_numeral k) x"
  by (simp add: numeral_eq_Suc)

subsection \<open>Closed examples\<close>

lemma nine_fungicides:
  "interacts sample_species sample_texts (new_plant sample_species sample_texts)
     (replicate 9 (ACTIONS_FUNGICIDE, sample_draws)) = Inr sample_seed90"
  by (simp add: run_defs sample_defs replicate_numeral)

lemma tenth_fungicide:
  "interact sample_species sample_texts sample_draws sample_seed90 ACTIONS_FUNGICIDE =
     Inr (None, sample_dead)"
  by (simp add: run_defs sample_defs)

lemma ten_fungicides:
  "interacts sample_species sample_texts (new_plant sample_species sample_texts)
     (replicate 10 (ACTIONS_FUNGICIDE, sample_draws)) = Inr sample_dead"
  by (simp add: run_defs sample_defs replicate_numeral)

lemma day4_run:
  "interacts sample_species sample_texts (new_plant sample_species sample_texts)
     (replicate 7 (ACTIONS_FUNGICIDE, sample_draws) @
      replicate 5 (ACTIONS_FERTILIZE, sample_draws) @
      [(ACTIONS_PLANT_SEED, sample_draws)] @
      replicate 3 (ACTIONS_WATER, sample_draws)) = Inr sample_day4"
  by (simp add: run_defs sample_defs replicate_numeral)

lemma day4_germinate:
  "germinate sample_species (end_day_counters (water sample_draws sample_day4)) =
     Inr (sample_day4\<lparr>age := 5, status := PLANT, stress := 110, moisture := 100,
            fertilizer := 45, fungicide := 0\<rparr>)"
  by (simp add: run_defs sample_defs)

lemma day4_water:
  "interact sample_species sample_texts sample_draws sample_day4 ACTIONS_WATER =
     Inr (None, sample_day4\<lparr>age := 5, size_plant := 3 / 10, status := DEAD, stress := 100,
            fertilizer := 45, fungicide := 0, dead := True,
            look := ''The plant is dead... Be more careful the next time!''\<rparr>)"
  by (simp add: run_defs sample_defs round1_def)

lemma quick_plant_seed:
  "interact quick_species sample_texts sample_draws
     (new_plant quick_species sample_texts) ACTIONS_PLANT_SEED =
   Inr (None, (new_plant quick_species sample_texts)
     \<lparr>age := 1, size_plant := 7 / 10, status := PLANT,
      look := ''Day 1. Germinated. Status. Size. Soil 1. Ok. Moisture: 0%. Fertilizer: 0%. Stress: 0%''\<rparr>)"
  by (simp add: run_defs sample_defs round1_def)

lemma misplaced_wait:
  "interact sample_species sample_texts sample_draws sample_misplaced ACTIONS_WAIT =
     Inl (ValueError, sample_misplaced\<lparr>age := 5, fertilizer := 7\<rparr>)"
  by (simp add: run_defs sample_defs)

lemma early_fertilize:
  "interact early_species sample_texts sample_draws
      (new_plant early_species sample_texts) ACTIONS_FERTILIZE =
    Inl (ValueError, (new_plant early_species sample_texts)\<lparr>fertilizer := 10\<rparr>)"
  by (simp add: run_defs sample_defs)

lemma ripe_fungicide:
  "interact sample_species sample_texts sample_draws sample_ripe ACTIONS_FUNGICIDE =
     Inr (None, sample_ripe_day20)"
  by (simp add: run_defs sample_defs)

lemma ripe_evolve:
  "evolve sample_species (end_day_counters (fungicide_action sample_ripe)) =
     Inr (sample_ripe\<lparr>age := 20, status := YIELD, stress := 100, fertilizer := 7,
        fungicide := 4, dead := True\<rparr>)"
  by (simp add: run_defs sample_defs)

lemma new_plant_seed:
  "interact sample_species sample_texts sample_draws
     (new_plant sample_species sample_texts) ACTIONS_PLANT_SEED =
   Inr (None, (new_plant sample_species sample_texts)\<lparr>age := 1, status := PLANTED,
     look := ''Day 1. Status. Soil 1. Moisture: 0%. Fertilizer: 0%''\<rparr>)"
  by (simp add: run_defs sample_defs)

lemma day2_end_day:
  "end_day sample_species sample_texts sample_draws sample_day2 =
     Inr (sample_day2\<lparr>age := 3, moisture := 20, fertilizer := 7,
       look := ''Day 3. Status. Soil 2. Moisture: 20%. Fertilizer: 7%''\<rparr>)"
  by (simp add: run_defs sample_defs)

lemma sample_draws_ok:
  "draws_ok sample_draws"
  by (simp add: draws_ok_def sample_draws_def)

subsection \<open>The percentages\<close>

lemma perform_percentages:
  assumes "draws_ok d" and "percentages_ok p" and "perform d p action = Inr q"
  shows "percentages_ok q"
  using assms(1,2) perform_fields(5,6,7) [OF assms(3)]
  by (simp add: percentages_ok_def draws_ok_def)

lemma end_day_percentages:
  assumes d: "draws_ok d" and p: "percentages_ok p" and e: "end_day data tx d p = Inr p'"
  shows "percentages_ok p'"
proof -
  from e obtain q g where q: "evolve data (end_day_counters p) = Inr q"
    and g: "status g = status q" "stress g = stress q"
      "moisture g = max (moisture q - lost_water d) 0" "fertilizer g = fertilizer q"
    and p': "p' = update_look data tx (end_day_health data d g)"
    by (rule end_day_Inr)
  have m: "0 \<le> moisture p' \<and> moisture p' \<le> 100"
    using d p g(3) evolve_fields(2) [OF q]
    by (simp add: p' percentages_ok_def draws_ok_def)
  have f: "0 \<le> fertilizer p' \<and> fertilizer p' \<le> 100"
    using p g(4) evolve_fields(3) [OF q]
    by (simp add: p' percentages_ok_def)
  have s: "0 \<le> stress p' \<and> stress p' \<le> 100"
  proof (cases "status g = PLANT \<or> status g = MATURE")
    case True
    then show ?thesis
      by (simp add: p' end_day_health_stress calc_plant_stress_range)
  next
    case False
    then have "stress q = stress p"
      using evolve_status [OF q] g(1) by auto
    with False p g(2) show ?thesis
      by (simp add: p' end_day_health_stress percentages_ok_def)
  qed
  from m f s show ?thesis
    by (simp add: percentages_ok_def)
qed

lemma interact_percentages:
  assumes "draws_ok d" and "percentages_ok p" and "interact data tx d p action = Inr (r, p')"
  shows "percentages_ok p'"
proof -
  from assms(3) obtain q where "perform d p action = Inr q" and "end_day data tx d q = Inr p'"
    by (rule interact_Inr)
  with assms(1,2) show ?thesis
    by (blast intro: perform_percentages end_day_percentages)
qed

lemma interacts_percentages:
  assumes "\<forall>(action, d) \<in> set steps. draws_ok d"
    and "percentages_ok p" and "interacts data tx p steps = Inr p'"
  shows "percentages_ok p'"
  using assms
proof (induction steps arbitrary: p)
  case Nil
  then show ?case by simp
next
  case (Cons step steps)
  obtain action d where step: "step = (action, d)"
    by (cases step)
  from Cons.prems(3) obtain r p1 where one: "interact data tx d p action = Inr (r, p1)"
    and rest: "interacts data tx p1 steps = Inr p'"
    by (auto simp: step split: sum.splits)
  from Cons.prems(1) have "draws_ok d" and ds: "\<forall>(action, d) \<in> set steps. draws_ok d"
    by (simp_all add: step)
  then have p1: "percentages_ok p1"
    using Cons.prems(2) one by (blast intro: interact_percentages)
  show ?case
    by (rule Cons.IH [OF ds p1 rest])
qed

text \<open>
  Claim C1. Start from a new plant and make any finite sequence of calls of \<open>interact\<close>, none
  of which raises, with any draws that lie in the ranges \<open>random.randint\<close> is asked for:
  after the last call (so after every call, a prefix of such a run being such a run)
  \<open>moisture\<close>, \<open>fertilizer\<close> and \<open>stress\<close> each lie in \<open>[0, 100]\<close>.
\<close>

theorem percentages_stay_in_range:
  assumes "\<forall>(action, d) \<in> set steps. draws_ok d"
    and "interacts data tx (new_plant data tx) steps = Inr p"
  shows "0 \<le> moisture p \<and> moisture p \<le> 100 \<and>
    0 \<le> fertilizer p \<and> fertilizer p \<le> 100 \<and>
    0 \<le> stress p \<and> stress p \<le> 100"
proof -
  have "percentages_ok (new_plant data tx)"
    by (simp add: percentages_ok_def)
  with assms(1) have "percentages_ok p"
    using assms(2) by (rule interacts_percentages)
  then show ?thesis
    by (simp add: percentages_ok_def)
qed

theorem percentages_stay_in_range_witness:
  "draws_ok sample_draws \<and>
   interacts sample_species sample_texts (new_plant sample_species sample_texts)
     [(ACTIONS_FERTILIZE, sample_draws), (ACTIONS_PLANT_SEED, sample_draws),
      (ACTIONS_WATER, sample_draws)] = Inr sample_day2 \<and>
   0 \<le> moisture sample_day2 \<and> moisture sample_day2 \<le> 100 \<and>
   0 \<le> fertilizer sample_day2 \<and> fertilizer sample_day2 \<le> 100 \<and>
   0 \<le> stress sample_day2 \<and> stress sample_day2 \<le> 100"
proof -
  have ok: "draws_ok sample_draws"
    by (simp add: draws_ok_def sample_draws_def)
  have run: "interacts sample_species sample_texts (new_plant sample_species sample_texts)
     [(ACTIONS_FERTILIZE, sample_draws), (ACTIONS_PLANT_SEED, sample_draws),
      (ACTIONS_WATER, sample_draws)] = Inr sample_day2"
    by (simp add: run_defs sample_day2_def)
  have "\<forall>(action, d) \<in> set [(ACTIONS_FERTILIZE, sample_draws),
      (ACTIONS_PLANT_SEED, sample_draws), (ACTIONS_WATER, sample_draws)]. draws_ok d"
    using ok by simp
  from percentages_stay_in_range [OF this run] ok run show ?thesis
    by simp
qed

subsection \<open>The protective counters\<close>

lemma perform_counters:
  assumes "counters_ok p" and "perform d p action = Inr q"
  shows "counters_ok q"
  using assms(1) perform_fields(8,9) [OF assms(2)]
  by (simp add: counters_ok_def)

lemma end_day_counters_ok:
  assumes "counters_ok p"
  shows "counters_ok (end_day_counters p)"
  using assms by (simp add: counters_ok_def)

lemma interact_counters:
  assumes ok: "counters_ok p"
  shows "interact data tx d p action = Inr (r, p') \<Longrightarrow> counters_ok p'"
    and "interact data tx d p action = Inl (e, p'') \<Longrightarrow> counters_ok p''"
proof -
  have ed: "counters_ok p'" if q: "counters_ok q" and e: "end_day data tx d q = Inr p'"
    for q p'
  proof -
    from e obtain q2 g where q2: "evolve data (end_day_counters q) = Inr q2"
      and g: "fungicide g = fungicide q2" "fumigation g = fumigation q2"
      and p': "p' = update_look data tx (end_day_health data d g)"
      by (rule end_day_Inr)
    have "counters_ok q2"
      using end_day_counters_ok [OF q] evolve_fields(4,5) [OF q2]
      by (simp add: counters_ok_def)
    with g show ?thesis
      by (simp add: p' counters_ok_def)
  qed
  have el: "counters_ok p''" if q: "counters_ok q" and e: "end_day data tx d q = Inl (e, p'')"
    for q
  proof -
    from end_day_Inl [OF e] show ?thesis
    proof
      assume "e = ValueError \<and> p'' = end_day_counters q"
      then show ?thesis
        using end_day_counters_ok [OF q] by simp
    next
      assume "e = ZeroDivisionError \<and>
        (\<exists>q2. evolve data (end_day_counters q) = Inr q2 \<and> status q2 = MATURE \<and>
          p'' = consume_water d q2)"
      then obtain q2 where q2: "evolve data (end_day_counters q) = Inr q2"
        and p'': "p'' = consume_water d q2"
        by blast
      show ?thesis
        using end_day_counters_ok [OF q] evolve_fields(4,5) [OF q2]
        by (simp add: p'' counters_ok_def)
    qed
  qed
  show "counters_ok p'" if "interact data tx d p action = Inr (r, p')"
  proof -
    from that obtain q where "perform d p action = Inr q" and "end_day data tx d q = Inr p'"
      by (rule interact_Inr)
    then show ?thesis
      using ok by (blast intro: ed perform_counters)
  qed
  show "counters_ok p''" if "interact data tx d p action = Inl (e, p'')"
    using interact_Inl [OF that] ok by (blast intro: el perform_counters)
qed

lemma interacts_counters:
  assumes "counters_ok p"
  shows "counters_ok (plant_of (interacts data tx p steps))"
  using assms
proof (induction steps arbitrary: p)
  case Nil
  then show ?case
    by (simp add: plant_of_def)
next
  case (Cons step steps)
  obtain action d where step: "step = (action, d)"
    by (cases step)
  show ?case
  proof (cases "interact data tx d p action")
    case (Inl a)
    obtain e p'' where a: "a = (e, p'')"
      by (cases a)
    have "counters_ok p''"
      using interact_counters(2) [OF Cons.prems] Inl by (simp add: a)
    with Inl show ?thesis
      by (simp add: step a plant_of_def)
  next
    case (Inr b)
    obtain r p' where b: "b = (r, p')"
      by (cases b)
    have "counters_ok p'"
      using interact_counters(1) [OF Cons.prems] Inr by (simp add: b)
    then have "counters_ok (plant_of (interacts data tx p' steps))"
      by (rule Cons.IH)
    with Inr show ?thesis
      by (simp add: step b)
  qed
qed

text \<open>
  Claim C10. Start from a new plant, whose two counters are 0, and make any finite sequence of
  calls of \<open>interact\<close>, with any draws: in the plant the run leaves, whether its last call
  completed or raised, \<open>fungicide\<close> and \<open>fumigation\<close> each lie in \<open>[0, 5]\<close>. An action sets
  a counter to 5, the end of a day takes 1 from a positive counter, nothing else writes them.
\<close>

theorem counters_stay_in_range:
  "counters_ok (plant_of (interacts data tx (new_plant data tx) steps))"
  by (rule interacts_counters) (simp add: counters_ok_def)

subsection \<open>The death check\<close>

text \<open>
  Claim C7. A call of \<open>interact\<close> that completes leaves the stress that the recalculation
  of the stress has computed (nothing writes \<open>stress\<close> after that block); whenever that
  stress is above 99, the call leaves the status \<open>DEAD\<close> and \<open>dead\<close> true, whatever
  \<open>_evolve\<close> did to the status earlier in the same day.
\<close>

theorem stress_above_99_kills:
  assumes "interact data tx d p action = Inr (r, p')"
  shows "(\<exists>g. p' = update_look data tx (end_day_health data d g) \<and>
      stress p' = stress (end_day_stress data d g)) \<and>
    (99 < stress p' \<longrightarrow> status p' = DEAD \<and> dead p')"
proof -
  from assms obtain q where "end_day data tx d q = Inr p'"
    by (rule interact_Inr)
  then obtain g where p': "p' = update_look data tx (end_day_health data d g)"
    by (rule end_day_Inr)
  have s: "stress p' = stress (end_day_stress data d g)"
    by (simp add: p' end_day_health_stress(1))
  have "status p' = DEAD \<and> dead p'" if "99 < stress p'"
  proof -
    from that have "99 < stress (end_day_health data d g)"
      by (simp add: p')
    then show ?thesis
      using end_day_health_status [of data d g] end_day_health_dead [of data d g]
      by (simp add: p')
  qed
  with p' s show ?thesis
    by blast
qed

theorem stress_above_99_kills_witness:
  "interact sample_species sample_texts sample_draws sample_ripe ACTIONS_FUNGICIDE =
     Inr (None, sample_ripe_day20) \<and>
   evolve sample_species (end_day_counters (fungicide_action sample_ripe)) =
     Inr (sample_ripe\<lparr>age := 20, status := YIELD, stress := 100, fertilizer := 7,
        fungicide := 4, dead := True\<rparr>) \<and>
   99 < stress sample_ripe_day20 \<and>
   status sample_ripe_day20 = DEAD \<and> dead sample_ripe_day20"
proof -
  have s: "99 < stress sample_ripe_day20"
    by (simp add: sample_defs)
  from stress_above_99_kills [OF ripe_fungicide] s show ?thesis
    by (simp add: ripe_fungicide ripe_evolve)
qed

subsection \<open>The status never moves backward\<close>

lemma not_backward_refl:
  "s \<noteq> DEAD \<Longrightarrow> not_backward s s"
  by (cases s) (simp_all add: not_backward_def)

lemma not_backward_trans:
  "not_backward s1 s2 \<Longrightarrow> not_backward s2 s3 \<Longrightarrow> not_backward s1 s3"
  by (cases s1; cases s2; cases s3) (simp_all add: not_backward_def)

lemma not_backward_not_dead:
  "not_backward s s' \<Longrightarrow> s \<noteq> DEAD \<and> s' \<noteq> DEAD"
  by (cases s; cases s') (simp_all add: not_backward_def)

lemma not_backward_next:
  "not_backward SEED PLANTED" "not_backward PLANTED PLANT" "not_backward PLANT MATURE"
  "not_backward MATURE YIELD"
  by (simp_all add: not_backward_def)

lemma evolve_not_backward:
  assumes "evolve data p = Inr q" and "status p \<noteq> DEAD"
  shows "not_backward (status p) (status q)"
  using evolve_status [OF assms(1)] assms(2)
  by (auto simp: not_backward_next not_backward_refl)

lemma interact_status:
  assumes "interact data tx d p action = Inr (r, p')"
  shows "status p \<noteq> DEAD" and "status p \<noteq> YIELD"
    and "status p' = DEAD \<longleftrightarrow> 99 < stress p'"
    and "status p' = DEAD \<or> not_backward (status p) (status p')"
proof -
  from assms obtain possible_actions q
    where allowed: "STATUS_ACTIONS (status p) = Some possible_actions"
      "action \<in> set possible_actions"
    and q: "perform d p action = Inr q" and e: "end_day data tx d q = Inr p'"
    by (rule interact_Inr)
  from allowed show alive: "status p \<noteq> DEAD" and "status p \<noteq> YIELD"
    by (cases "status p"; simp)+
  have pq: "not_backward (status p) (status q)"
    using perform_fields(2,3) [OF q] alive
    by (auto simp: not_backward_next not_backward_refl)
  from e obtain q2 g where q2: "evolve data (end_day_counters q) = Inr q2"
    and g: "status g = status q2"
    and p': "p' = update_look data tx (end_day_health data d g)"
    by (rule end_day_Inr)
  have "not_backward (status q) (status q2)"
    using evolve_not_backward [OF q2] not_backward_not_dead [OF pq] by simp
  with pq have pq2: "not_backward (status p) (status q2)"
    by (rule not_backward_trans)
  have st: "status p' = (if 99 < stress p' then DEAD else status q2)"
    using end_day_health_status [of data d g] g by (simp add: p')
  show "status p' = DEAD \<longleftrightarrow> 99 < stress p'"
    using st not_backward_not_dead [OF pq2] by simp
  show "status p' = DEAD \<or> not_backward (status p) (status p')"
    using st pq2 by simp
qed

text \<open>
  Claim C6, as amended. Over any run of calls of \<open>interact\<close> that complete, from any plant,
  either the run ends in \<open>DEAD\<close> or the status has not moved backward in the sequence
  \<open>SEED < PLANTED < PLANT < MATURE < YIELD\<close>. No call completes on a plant that is \<open>DEAD\<close>
  or \<open>YIELD\<close>. A run of at least one call that ends in \<open>DEAD\<close> ends with a stress above 99:
  the death check is the only way into \<open>DEAD\<close>, and it does not look at the status, so
  \<open>DEAD\<close> is entered from \<open>SEED\<close> and \<open>PLANTED\<close> as well as from \<open>PLANT\<close> and \<open>MATURE\<close>.
\<close>

theorem status_never_moves_backward:
  assumes "interacts data tx p steps = Inr p'"
  shows "(status p' = DEAD \<or> not_backward (status p) (status p')) \<and>
    (status p = DEAD \<or> status p = YIELD \<longrightarrow> steps = [] \<and> p' = p) \<and>
    (steps \<noteq> [] \<and> status p' = DEAD \<longrightarrow> 99 < stress p')"
  using assms
proof (induction steps arbitrary: p)
  case Nil
  then show ?case
    by (auto intro: not_backward_refl)
next
  case (Cons step steps)
  obtain action d where step: "step = (action, d)"
    by (cases step)
  from Cons.prems obtain r p1 where one: "interact data tx d p action = Inr (r, p1)"
    and rest: "interacts data tx p1 steps = Inr p'"
    by (auto simp: step split: sum.splits)
  note ih = Cons.IH [OF rest]
  note st = interact_status [OF one]
  have "status p' = DEAD \<or> not_backward (status p) (status p')"
  proof (cases "status p1 = DEAD")
    case True
    with ih show ?thesis
      by simp
  next
    case False
    with st(4) ih show ?thesis
      by (blast intro: not_backward_trans)
  qed
  moreover have "status p' = DEAD \<longrightarrow> 99 < stress p'"
  proof (cases "steps = []")
    case True
    with rest st(3) show ?thesis
      by simp
  next
    case False
    with ih show ?thesis
      by simp
  qed
  ultimately show ?case
    using st(1,2) by simp
qed

theorem status_never_moves_backward_witness:
  "interacts sample_species sample_texts (new_plant sample_species sample_texts)
     [(ACTIONS_FERTILIZE, sample_draws), (ACTIONS_PLANT_SEED, sample_draws),
      (ACTIONS_WATER, sample_draws)] = Inr sample_day2 \<and>
   status (new_plant sample_species sample_texts) = SEED \<and>
   status sample_day2 = PLANTED \<and>
   not_backward (status (new_plant sample_species sample_texts)) (status sample_day2)"
proof -
  have run: "interacts sample_species sample_texts (new_plant sample_species sample_texts)
     [(ACTIONS_FERTILIZE, sample_draws), (ACTIONS_PLANT_SEED, sample_draws),
      (ACTIONS_WATER, sample_draws)] = Inr sample_day2"
    by (simp add: run_defs sample_defs)
  have "status sample_day2 = PLANTED"
    by (simp add: sample_defs)
  with status_never_moves_backward [OF run] run show ?thesis
    by simp
qed

text \<open>
  Claim C6 as stated fails: nine applications of fungicide leave a new plant a seed with
  stress 90, and the tenth takes it from \<open>SEED\<close> to \<open>DEAD\<close>.
\<close>

theorem dead_from_seed_counterexample:
  "interacts sample_species sample_texts (new_plant sample_species sample_texts)
     (replicate 9 (ACTIONS_FUNGICIDE, sample_draws)) = Inr sample_seed90 \<and>
   status sample_seed90 = SEED \<and>
   interact sample_species sample_texts sample_draws sample_seed90 ACTIONS_FUNGICIDE =
     Inr (None, sample_dead) \<and>
   status sample_dead = DEAD"
  by (simp add: nine_fungicides tenth_fungicide) (simp add: sample_defs)

subsection \<open>Actions that are not allowed\<close>

text \<open>
  Claim C2 holds for the five statuses that are keys of \<open>STATUS_ACTIONS\<close> (lemmas
  \<open>not_allowed\<close> and \<open>interact_yield\<close>), and fails for \<open>DEAD\<close>, which is not a key: the
  lookup raises \<open>KeyError\<close> where the docstring of \<open>interact\<close> promises
  \<open>NotImplementedError\<close>. The plant is a new plant after ten applications of fungicide.
\<close>

theorem dead_plant_raises_KeyError:
  "interacts sample_species sample_texts (new_plant sample_species sample_texts)
     (replicate 10 (ACTIONS_FUNGICIDE, sample_draws)) = Inr sample_dead \<and>
   status sample_dead = DEAD \<and>
   interact sample_species sample_texts sample_draws sample_dead ACTIONS_WAIT =
     Inl (KeyError, sample_dead)"
proof -
  have d: "status sample_dead = DEAD"
    by (simp add: sample_defs)
  from ten_fungicides d interact_dead [OF d] show ?thesis
    by simp
qed

subsection \<open>Calls that raise\<close>

text \<open>
  Claim C3, as amended. When a call of \<open>interact\<close> raises \<open>NotImplementedError\<close> (or
  \<open>KeyError\<close>), the plant is exactly as it was before the call. When it raises \<open>ValueError\<close>,
  the exception comes from \<open>_evolve\<close>: the plant then has the effect of the action and the
  first block of \<open>_end_day\<close> (age and daily decrements) applied, and nothing of the later
  blocks.
\<close>

theorem raising_call_leaves:
  assumes "interact data tx d p action = Inl (e, p'')"
  shows "(e = NotImplementedError \<or> e = KeyError \<longrightarrow> p'' = p) \<and>
    (e = ValueError \<longrightarrow> (\<exists>q. perform d p action = Inr q \<and> p'' = end_day_counters q))"
proof -
  from interact_Inl [OF assms] consider
    "p'' = p" "e = KeyError \<or> e = NotImplementedError"
    | q where "perform d p action = Inr q" "end_day data tx d q = Inl (e, p'')"
    by blast
  then show ?thesis
  proof cases
    case 1
    then show ?thesis
      by auto
  next
    case 2
    from end_day_Inl [OF 2(2)] 2(1) show ?thesis
      by auto
  qed
qed

theorem raising_call_leaves_witness:
  "interact sample_species sample_texts sample_draws sample_misplaced ACTIONS_WAIT =
     Inl (ValueError, sample_misplaced\<lparr>age := 5, fertilizer := 7\<rparr>) \<and>
   (\<exists>q. perform sample_draws sample_misplaced ACTIONS_WAIT = Inr q \<and>
      sample_misplaced\<lparr>age := 5, fertilizer := 7\<rparr> = end_day_counters q)"
  using raising_call_leaves [OF misplaced_wait] misplaced_wait by simp

text \<open>
  Claim C3 as stated fails. A plant in status \<open>PLANT\<close> on the eve of the germination day:
  \<open>wait\<close> raises \<open>ValueError\<close> and leaves age and fertilizer changed. A new plant of a
  species whose germination day is 0: \<open>fertilize\<close> raises \<open>ValueError\<close> and leaves the
  fertilizer at 10.
\<close>

theorem partial_mutation_counterexample:
  "interact sample_species sample_texts sample_draws sample_misplaced ACTIONS_WAIT =
     Inl (ValueError, sample_misplaced\<lparr>age := 5, fertilizer := 7\<rparr>) \<and>
   age sample_misplaced = 4 \<and> fertilizer sample_misplaced = 8 \<and>
   interact early_species sample_texts sample_draws
     (new_plant early_species sample_texts) ACTIONS_FERTILIZE =
     Inl (ValueError, (new_plant early_species sample_texts)\<lparr>fertilizer := 10\<rparr>) \<and>
   fertilizer (new_plant early_species sample_texts) = 0"
  by (simp add: misplaced_wait early_fertilize) (simp add: sample_defs)

subsection \<open>The value a call returns\<close>

text \<open>
  Claim C4 fails on the code: \<open>interact\<close> ends with the call of \<open>_end_day\<close> and returns
  nothing, where its docstring promises a string explaining the result of the action. The
  description is only stored in \<open>look\<close>. Planting the seed of a new plant returns \<open>None\<close>.
\<close>

theorem interact_returns_None:
  "interact sample_species sample_texts sample_draws
     (new_plant sample_species sample_texts) ACTIONS_PLANT_SEED =
   Inr (None, (new_plant sample_species sample_texts)\<lparr>age := 1, status := PLANTED,
     look := ''Day 1. Status. Soil 1. Moisture: 0%. Fertilizer: 0%''\<rparr>)"
  by (rule new_plant_seed)

subsection \<open>The first block of the end of the day\<close>

text \<open>
  Claim C5, as amended. For a plant that is not a seed, the first block of \<open>_end_day\<close> adds 1
  to the age and takes 1 from each of \<open>fungicide\<close>, \<open>fumigation\<close> and \<open>fertilizer\<close> that is
  positive, and changes nothing else; no later block writes these three, so a completed
  \<open>_end_day\<close> leaves them as the first block did.
\<close>

theorem first_block_of_end_day:
  assumes "status p \<noteq> SEED" and "end_day data tx d p = Inr p'"
  shows "end_day_counters p =
      p\<lparr>age := age p + 1,
        fungicide := (if 0 < fungicide p then fungicide p - 1 else fungicide p),
        fumigation := (if 0 < fumigation p then fumigation p - 1 else fumigation p),
        fertilizer := (if 0 < fertilizer p then fertilizer p - 1 else fertilizer p)\<rparr> \<and>
    fungicide p' = fungicide (end_day_counters p) \<and>
    fumigation p' = fumigation (end_day_counters p) \<and>
    fertilizer p' = fertilizer (end_day_counters p)"
proof -
  from assms(2) obtain q g where q: "evolve data (end_day_counters p) = Inr q"
    and g: "fertilizer g = fertilizer q" "fungicide g = fungicide q"
      "fumigation g = fumigation q"
    and p': "p' = update_look data tx (end_day_health data d g)"
    by (rule end_day_Inr)
  have "fungicide p' = fungicide (end_day_counters p) \<and>
    fumigation p' = fumigation (end_day_counters p) \<and>
    fertilizer p' = fertilizer (end_day_counters p)"
    using g evolve_fields(3,4,5) [OF q] by (simp add: p')
  moreover have "end_day_counters p =
      p\<lparr>age := age p + 1,
        fungicide := (if 0 < fungicide p then fungicide p - 1 else fungicide p),
        fumigation := (if 0 < fumigation p then fumigation p - 1 else fumigation p),
        fertilizer := (if 0 < fertilizer p then fertilizer p - 1 else fertilizer p)\<rparr>"
    using assms(1) by (simp add: end_day_counters_def)
  ultimately show ?thesis
    by simp
qed

theorem first_block_of_end_day_witness:
  "status sample_day2 \<noteq> SEED \<and>
   end_day sample_species sample_texts sample_draws sample_day2 =
     Inr (sample_day2\<lparr>age := 3, moisture := 20, fertilizer := 7,
       look := ''Day 3. Status. Soil 2. Moisture: 20%. Fertilizer: 7%''\<rparr>) \<and>
   end_day_counters sample_day2 = sample_day2\<lparr>age := 3, fertilizer := 7\<rparr>"
proof -
  have s: "status sample_day2 \<noteq> SEED"
    by (simp add: sample_defs)
  from first_block_of_end_day [OF s day2_end_day] s show ?thesis
    by (simp add: day2_end_day) (simp add: sample_defs)
qed

text \<open>
  Claim C5 as stated fails: the sample plant of day 2 is not a seed and has 8 percent of
  fertilizer; the first block leaves 7.
\<close>

theorem fertilizer_decrement_counterexample:
  "status sample_day2 \<noteq> SEED \<and> fertilizer sample_day2 = 8 \<and>
   fertilizer (end_day_counters sample_day2) = 7"
  by (simp add: sample_defs)

subsection \<open>Germination\<close>

text \<open>
  Claim C8 fails on the code: \<open>_germinate\<close> adds the distance of the moisture from the ideal
  to the stress with a bare \<open>+=\<close>, where \<open>_add_stress\<close> caps every other addition at 100. The
  sample plant of day 4, reached from a new plant, has stress 70; watered to moisture 100
  it germinates with stress 110, and the day ends with the plant dead (110 - 5 is above 99,
  where 100 - 5 is not).
\<close>

theorem germinate_does_not_cap:
  "interacts sample_species sample_texts (new_plant sample_species sample_texts)
     (replicate 7 (ACTIONS_FUNGICIDE, sample_draws) @
      replicate 5 (ACTIONS_FERTILIZE, sample_draws) @
      [(ACTIONS_PLANT_SEED, sample_draws)] @
      replicate 3 (ACTIONS_WATER, sample_draws)) = Inr sample_day4 \<and>
   germinate sample_species (end_day_counters (water sample_draws sample_day4)) =
     Inr (sample_day4\<lparr>age := 5, status := PLANT, stress := 110, moisture := 100,
            fertilizer := 45, fungicide := 0\<rparr>) \<and>
   interact sample_species sample_texts sample_draws sample_day4 ACTIONS_WATER =
     Inr (None, sample_day4\<lparr>age := 5, size_plant := 3 / 10, status := DEAD, stress := 100,
            fertilizer := 45, fungicide := 0, dead := True,
            look := ''The plant is dead... Be more careful the next time!''\<rparr>)"
  by (simp only: day4_run day4_germinate day4_water simp_thms)

subsection \<open>The age\<close>

lemma plant_seed_threshold_1:
  assumes t: "evolution_germination data = 1 \<or> evolution_maturity data = 1 \<or>
      evolution_yield data = 1"
    and c: "interact data tx d (new_plant data tx) ACTIONS_PLANT_SEED = Inr (r, p')"
  shows "status p' = PLANT \<or> status p' = DEAD"
proof -
  from c obtain q where q: "perform d (new_plant data tx) ACTIONS_PLANT_SEED = Inr q"
    and e: "end_day data tx d q = Inr p'"
    by (rule interact_Inr)
  from e obtain q2 g where q2: "evolve data (end_day_counters q) = Inr q2"
    and g: "status g = status q2"
    and p': "p' = update_look data tx (end_day_health data d g)"
    by (rule end_day_Inr)
  have s: "status (end_day_counters q) = PLANTED" and a: "age (end_day_counters q) = 1"
    using perform_fields(1,2) [OF q] by simp_all
  have "status q2 = PLANT"
    using q2 t s a
    by (auto simp: evolve_def germinate_def mature_def yield_def split: if_splits)
  then show ?thesis
    using end_day_health_status [of data d g] g by (simp add: p')
qed

lemma germination_1_sample:
  "interact (sample_species\<lparr>evolution_germination := 1\<rparr>) sample_texts sample_draws
     (new_plant (sample_species\<lparr>evolution_germination := 1\<rparr>) sample_texts)
     ACTIONS_PLANT_SEED =
   Inr (None, (new_plant (sample_species\<lparr>evolution_germination := 1\<rparr>) sample_texts)
     \<lparr>age := 1, size_plant := 8 / 10, status := DEAD, stress := 100, dead := True,
      look := ''The plant is dead... Be more careful the next time!''\<rparr>)"
  by (simp add: run_defs round1_def)

text \<open>
  Claim C9, as amended. A call of \<open>interact\<close> that completes leaves the age as it was when
  the plant is a seed after the action (that is, it was a seed and the action is not
  \<open>plant seed\<close>), and adds exactly 1 otherwise: the test of \<open>_end_day\<close> reads the status the
  action has left. So planting the seed of a new plant, when the call completes, gives
  age 1. When none of the three evolution days of the species is day 1, the call completes
  and leaves the status \<open>PLANTED\<close>; when one of them is day 1, a call that completes leaves
  the status \<open>PLANT\<close> or \<open>DEAD\<close>.
\<close>

theorem age_counts_days_out_of_seed:
  "(\<forall>r p' q. interact data tx d p action = Inr (r, p') \<and> perform d p action = Inr q \<longrightarrow>
      age p' = (if status q = SEED then age p else age p + 1) \<and>
      (status q = SEED \<longleftrightarrow> status p = SEED \<and> action \<noteq> ACTIONS_PLANT_SEED)) \<and>
   (evolution_germination data \<noteq> 1 \<and> evolution_maturity data \<noteq> 1 \<and>
    evolution_yield data \<noteq> 1 \<longrightarrow>
      (\<exists>p'. interact data tx d (new_plant data tx) ACTIONS_PLANT_SEED = Inr (None, p') \<and>
        status p' = PLANTED \<and> age p' = 1)) \<and>
   (\<forall>r p'. interact data tx d (new_plant data tx) ACTIONS_PLANT_SEED = Inr (r, p') \<longrightarrow>
      age p' = 1 \<and>
      (evolution_germination data = 1 \<or> evolution_maturity data = 1 \<or>
       evolution_yield data = 1 \<longrightarrow> status p' = PLANT \<or> status p' = DEAD))"
proof -
  have age_law: "age p' = (if status q = SEED then age p else age p + 1) \<and>
      (status q = SEED \<longleftrightarrow> status p = SEED \<and> action \<noteq> ACTIONS_PLANT_SEED)"
    if a: "interact data tx d p action = Inr (r, p') \<and> perform d p action = Inr q"
    for p action r p' q
  proof -
    from a obtain q' where "perform d p action = Inr q'" and "end_day data tx d q' = Inr p'"
      by (blast elim: interact_Inr)
    with a have e: "end_day data tx d q = Inr p'"
      by simp
    from e obtain q2 g where q2: "evolve data (end_day_counters q) = Inr q2"
      and g: "age g = age q2"
      and p': "p' = update_look data tx (end_day_health data d g)"
      by (rule end_day_Inr)
    have "age p' = age (end_day_counters q)"
      using g evolve_fields(1) [OF q2] by (simp add: p')
    then have "age p' = (if status q = SEED then age p else age p + 1)"
      using a perform_fields(1) [of d p action q] by simp
    moreover have "status q = SEED \<longleftrightarrow> status p = SEED \<and> action \<noteq> ACTIONS_PLANT_SEED"
      using a perform_fields(2) [of d p action q] by auto
    ultimately show ?thesis
      by simp
  qed
  have planted: "\<exists>p'. interact data tx d (new_plant data tx) ACTIONS_PLANT_SEED = Inr (None, p') \<and>
        status p' = PLANTED \<and> age p' = 1"
    if "evolution_germination data \<noteq> 1 \<and> evolution_maturity data \<noteq> 1 \<and>
      evolution_yield data \<noteq> 1"
    using that
    by (simp add: interact_def perform_def plant_seed_def end_day_def evolve_def
        end_day_health_def end_day_stress_def Let_def)
  have new_age: "age p' = 1"
    if c: "interact data tx d (new_plant data tx) ACTIONS_PLANT_SEED = Inr (r, p')" for r p'
  proof -
    from c obtain q where q: "perform d (new_plant data tx) ACTIONS_PLANT_SEED = Inr q"
      by (rule interact_Inr)
    from age_law [of "new_plant data tx" ACTIONS_PLANT_SEED r p' q] c q
      perform_fields(2) [OF q]
    show ?thesis
      by simp
  qed
  from age_law planted new_age plant_seed_threshold_1 [of data tx d] show ?thesis
    by blast
qed

theorem age_counts_days_out_of_seed_witness:
  "interact sample_species sample_texts sample_draws
     (new_plant sample_species sample_texts) ACTIONS_PLANT_SEED =
   Inr (None, (new_plant sample_species sample_texts)\<lparr>age := 1, status := PLANTED,
     look := ''Day 1. Status. Soil 1. Moisture: 0%. Fertilizer: 0%''\<rparr>) \<and>
   perform sample_draws (new_plant sample_species sample_texts) ACTIONS_PLANT_SEED =
     Inr ((new_plant sample_species sample_texts)\<lparr>status := PLANTED\<rparr>) \<and>
   evolution_germination sample_species = 5 \<and> evolution_maturity sample_species = 10 \<and>
   evolution_yield sample_species = 20 \<and>
   age (new_plant sample_species sample_texts) = 0 \<and>
   age ((new_plant sample_species sample_texts)\<lparr>age := 1, status := PLANTED,
     look := ''Day 1. Status. Soil 1. Moisture: 0%. Fertilizer: 0%''\<rparr>) = 1 \<and>
   (\<exists>p'. interact sample_species sample_texts sample_draws
       (new_plant sample_species sample_texts) ACTIONS_PLANT_SEED = Inr (None, p') \<and>
     status p' = PLANTED \<and> age p' = 1)"
proof -
  have p: "perform sample_draws (new_plant sample_species sample_texts) ACTIONS_PLANT_SEED =
     Inr ((new_plant sample_species sample_texts)\<lparr>status := PLANTED\<rparr>)"
    by (simp add: perform_def plant_seed_def)
  have t: "evolution_germination sample_species = 5 \<and> evolution_maturity sample_species = 10 \<and>
    evolution_yield sample_species = 20"
    by (simp add: sample_species_def)
  from age_counts_days_out_of_seed
    [of sample_species sample_texts sample_draws "new_plant sample_species sample_texts"
      ACTIONS_PLANT_SEED]
    new_plant_seed p t
  show ?thesis
    by simp
qed

text \<open>
  Claim C9 as stated fails for \<open>quick_species\<close>, which germinates on day 1 and whose ideal
  moisture and fertilizer are 0: planting the seed of a new plant leaves age 1 and status
  \<open>PLANT\<close>, not \<open>PLANTED\<close>. (For the sample species with germination on day 1 the same
  call leaves the plant \<open>DEAD\<close>, lemma \<open>germination_1_sample\<close>.)
\<close>

theorem plant_seed_germinates_counterexample:
  "evolution_germination quick_species = 1 \<and>
   interact quick_species sample_texts sample_draws
     (new_plant quick_species sample_texts) ACTIONS_PLANT_SEED =
   Inr (None, (new_plant quick_species sample_texts)
     \<lparr>age := 1, size_plant := 7 / 10, status := PLANT,
      look := ''Day 1. Germinated. Status. Size. Soil 1. Ok. Moisture: 0%. Fertilizer: 0%. Stress: 0%''\<rparr>)"
  by (simp add: quick_plant_seed) (simp add: sample_defs sample_species_def)

end
